theory Spec2Isabelle
  imports Complex_Main
begin

section \<open>The facade of \<^verbatim>\<open>index.slim.ts\<close>: data model\<close>

text \<open>
  The module \<^verbatim>\<open>index.slim.ts\<close> defines the class \<^verbatim>\<open>Main\<close>, builds its only
  instance \<^verbatim>\<open>tsParticles\<close>, and exports the legacy values \<^verbatim>\<open>particlesJS\<close> and
  \<^verbatim>\<open>pJSDom\<close>. JavaScript function values are opaque here and compared by identity: they
  are values of a type variable \<open>'f\<close>. Containers and option objects are opaque as well
  (\<open>'c\<close> and \<open>'o\<close>). Objects and arrays live in explicit stores and are named by their
  index there, so that "the same instance" is equality of references.
\<close>

type_synonym ref = nat

datatype fault = ReferenceError | TypeError

text \<open>A promise, as its settled outcome.\<close>

datatype 'a promise = Resolved 'a | Rejected fault

text \<open>
  \<^verbatim>\<open>IShapeDrawer\<close>: a required \<^verbatim>\<open>draw\<close> and three optional hooks. \<open>None\<close> is the
  value \<^verbatim>\<open>undefined\<close> that reading the property gives.
\<close>

record 'f IShapeDrawer =
  draw :: 'f
  init :: "'f option"
  afterEffect :: "'f option"
  destroy :: "'f option"

text \<open>
  The second parameter of \<^verbatim>\<open>addShape\<close>, of type
  \<^verbatim>\<open>IShapeDrawer | ShapeDrawerDrawFunction\<close>: a function value, or a reference to a
  drawer object.
\<close>

datatype 'f drawer_arg = DrawFunction 'f | DrawerObject ref

text \<open>
  The properties of \<^verbatim>\<open>window\<close> that the constructor reads and writes. An animation-frame
  primitive that is missing (or falsy) is \<open>None\<close>; the timer primitives are always there
  in a windowed context.
\<close>

datatype 'f schedule_fn =
    HostFunction 'f
  | TimeoutClosure \<comment> \<open>\<^verbatim>\<open>(callback) => window.setTimeout(callback, 1000 / 60)\<close>\<close>

record 'f Window =
  requestAnimationFrame :: "'f option"
  webkitRequestAnimationFrame :: "'f option"
  mozRequestAnimationFrame :: "'f option"
  oRequestAnimationFrame :: "'f option"
  msRequestAnimationFrame :: "'f option"
  cancelAnimationFrame :: "'f option"
  webkitCancelRequestAnimationFrame :: "'f option"
  mozCancelRequestAnimationFrame :: "'f option"
  oCancelRequestAnimationFrame :: "'f option"
  msCancelRequestAnimationFrame :: "'f option"
  setTimeout :: 'f
  clearTimeout :: 'f
  customRequestAnimationFrame :: "'f schedule_fn option"
  customCancelRequestAnimationFrame :: "'f option"

text \<open>
  The global identifier \<^verbatim>\<open>window\<close>: not declared at all (no windowed context), declared
  with the value \<^verbatim>\<open>undefined\<close> or \<^verbatim>\<open>null\<close>, or an object.
\<close>

datatype 'w js_global = Undeclared | Undefined | Null | Object 'w

text \<open>
  The state outside the facade instance: the global \<^verbatim>\<open>window\<close>, the store of drawer
  objects, the shape-drawer registry of \<^verbatim>\<open>Plugins\<close>, the store of arrays and the
  reference to the array in which \<^verbatim>\<open>Loader\<close> tracks the containers.
\<close>

record ('f, 'c) world =
  window :: "'f Window js_global"
  heap :: "'f IShapeDrawer list"
  shapeDrawers :: "string \<rightharpoonup> ref"
  arrays :: "'c list list"
  tracked :: ref

text \<open>The instance of \<^verbatim>\<open>Main\<close>: its only field.\<close>

record Main =
  initialized :: bool

section \<open>\<^verbatim>\<open>Main.init\<close>\<close>

text \<open>
  \<^verbatim>\<open>if (!this.initialized) { this.initialized = true; }\<close>: the method reads and writes
  the instance only, and no statement of it can throw.
\<close>

definition Main_init :: "Main \<Rightarrow> Main" where
  "Main_init this = (if \<not> initialized this then this\<lparr>initialized := True\<rparr> else this)"

section \<open>The shape-drawer registry\<close>

text \<open>
  Modelled from the spec: \<^verbatim>\<open>Plugins.addShapeDrawer\<close> (the file \<^verbatim>\<open>Utils/Plugins\<close> is
  not available). Section 4.1, \<^verbatim>\<open>register(key, bundle)\<close>: "stores bundle under key,
  overwriting any prior association for that exact key"; it always succeeds. The registry
  holds the reference it is given.
\<close>

definition Plugins_addShapeDrawer :: "string \<Rightarrow> ref \<Rightarrow> ('f, 'c) world \<Rightarrow> ('f, 'c) world" where
  "Plugins_addShapeDrawer key drawer W = W\<lparr>shapeDrawers := (shapeDrawers W)(key \<mapsto> drawer)\<rparr>"

text \<open>
  Modelled from the spec: \<^verbatim>\<open>Plugins.getShapeDrawer\<close> (not available). Section 4.1,
  \<^verbatim>\<open>resolve(key)\<close>: a pure lookup, absent when nothing is registered under the key.
\<close>

definition Plugins_getShapeDrawer :: "('f, 'c) world \<Rightarrow> string \<Rightarrow> ref option" where
  "Plugins_getShapeDrawer W key = shapeDrawers W key"

text \<open>Reading the object behind a reference; a reference outside the store names nothing.\<close>

definition bundle_at :: "('f, 'c) world \<Rightarrow> ref \<Rightarrow> 'f IShapeDrawer option" where
  "bundle_at W r = (if r < length (heap W) then Some (heap W ! r) else None)"

definition resolve_bundle :: "('f, 'c) world \<Rightarrow> string \<Rightarrow> 'f IShapeDrawer option" where
  "resolve_bundle W key =
     (case Plugins_getShapeDrawer W key of None \<Rightarrow> None | Some r \<Rightarrow> bundle_at W r)"

text \<open>An object literal or a \<^verbatim>\<open>new\<close> expression: a fresh object at the end of the store.\<close>

definition new_object :: "'f IShapeDrawer \<Rightarrow> ('f, 'c) world \<Rightarrow> ref \<times> ('f, 'c) world" where
  "new_object obj W = (length (heap W), W\<lparr>heap := heap W @ [obj]\<rparr>)"

section \<open>\<^verbatim>\<open>Main.addShape\<close>\<close>

text \<open>
  Lines 168 to 179: \<^verbatim>\<open>customDrawer\<close> is a new object built from the four arguments when
  \<^verbatim>\<open>typeof drawer === "function"\<close>, and \<^verbatim>\<open>drawer\<close> itself otherwise.
\<close>

definition addShape_customDrawer ::
  "'f drawer_arg \<Rightarrow> 'f option \<Rightarrow> 'f option \<Rightarrow> 'f option \<Rightarrow> ('f, 'c) world \<Rightarrow> ref \<times> ('f, 'c) world" where
  "addShape_customDrawer drawer init_arg afterEffect_arg destroy_arg W =
     (case drawer of
        DrawFunction f \<Rightarrow>
          new_object \<lparr>draw = f, init = init_arg, afterEffect = afterEffect_arg, destroy = destroy_arg\<rparr> W
      | DrawerObject r \<Rightarrow> (r, W))"

definition Main_addShape ::
  "string \<Rightarrow> 'f drawer_arg \<Rightarrow> 'f option \<Rightarrow> 'f option \<Rightarrow> 'f option \<Rightarrow> ('f, 'c) world \<Rightarrow> ('f, 'c) world" where
  "Main_addShape shape drawer init_arg afterEffect_arg destroy_arg W =
     (let (customDrawer, W') = addShape_customDrawer drawer init_arg afterEffect_arg destroy_arg W
      in Plugins_addShapeDrawer shape customDrawer W')"

section \<open>The constructor of \<^verbatim>\<open>Main\<close>\<close>

text \<open>\<^verbatim>\<open>typeof window !== "undefined"\<close> and the truthiness of \<^verbatim>\<open>window\<close>.\<close>

definition typeof_undefined :: "'w js_global \<Rightarrow> bool" where
  "typeof_undefined g = (case g of Undeclared \<Rightarrow> True | Undefined \<Rightarrow> True | _ \<Rightarrow> False)"

definition truthy :: "'w js_global \<Rightarrow> bool" where
  "truthy g = (case g of Object _ \<Rightarrow> True | _ \<Rightarrow> False)"

text \<open>
  Evaluating \<^verbatim>\<open>window.p\<close>: a ReferenceError when the identifier is not declared, a
  TypeError on \<^verbatim>\<open>undefined\<close> and \<^verbatim>\<open>null\<close>.
\<close>

definition read_global :: "'w js_global \<Rightarrow> fault + 'w" where
  "read_global g =
     (case g of
        Undeclared \<Rightarrow> Inl ReferenceError
      | Undefined \<Rightarrow> Inl TypeError
      | Null \<Rightarrow> Inl TypeError
      | Object w \<Rightarrow> Inr w)"

text \<open>\<^verbatim>\<open>a || b\<close> on values that are a function or falsy.\<close>

definition js_or :: "'a option \<Rightarrow> 'a option \<Rightarrow> 'a option" where
  "js_or a b = (case a of Some x \<Rightarrow> Some x | None \<Rightarrow> b)"

text \<open>Lines 52 to 57, the value of the first immediately invoked function.\<close>

definition resolve_requestAnimationFrame :: "'f Window \<Rightarrow> 'f schedule_fn" where
  "resolve_requestAnimationFrame w =
     (case js_or (js_or (js_or (js_or (requestAnimationFrame w) (webkitRequestAnimationFrame w))
                   (mozRequestAnimationFrame w)) (oRequestAnimationFrame w))
             (msRequestAnimationFrame w) of
        Some f \<Rightarrow> HostFunction f
      | None \<Rightarrow> TimeoutClosure)"

text \<open>Lines 61 to 66, the value of the second one; \<^verbatim>\<open>clearTimeout\<close> is the global.\<close>

definition resolve_cancelRequestAnimationFrame :: "'f Window \<Rightarrow> 'f" where
  "resolve_cancelRequestAnimationFrame w =
     (case js_or (js_or (js_or (js_or (cancelAnimationFrame w) (webkitCancelRequestAnimationFrame w))
                   (mozCancelRequestAnimationFrame w)) (oCancelRequestAnimationFrame w))
             (msCancelRequestAnimationFrame w) of
        Some f \<Rightarrow> f
      | None \<Rightarrow> clearTimeout w)"

text \<open>
  Calling the schedule binding: the host primitive is called with the callback; the
  closure calls \<^verbatim>\<open>window.setTimeout(callback, 1000 / 60)\<close>. The delay is the exact
  quotient here, of which JavaScript takes the nearest double.
\<close>

datatype ('f, 'cb) host_call = HostCall 'f 'cb "rat option"

definition call_schedule_fn :: "'f schedule_fn \<Rightarrow> 'f Window \<Rightarrow> 'cb \<Rightarrow> ('f, 'cb) host_call" where
  "call_schedule_fn s w callback =
     (case s of
        HostFunction f \<Rightarrow> HostCall f callback None
      | TimeoutClosure \<Rightarrow> HostCall (setTimeout w) callback (Some (1000 / 60)))"

text \<open>Lines 51 to 67: the two assignments to properties of \<^verbatim>\<open>window\<close>.\<close>

definition install_scheduler :: "('f, 'c) world \<Rightarrow> fault + ('f, 'c) world" where
  "install_scheduler W =
     (case read_global (window W) of
        Inl e \<Rightarrow> Inl e
      | Inr w \<Rightarrow>
          let W1 = W\<lparr>window :=
                Object (w\<lparr>customRequestAnimationFrame := Some (resolve_requestAnimationFrame w)\<rparr>)\<rparr>
          in (case read_global (window W1) of
                Inl e \<Rightarrow> Inl e
              | Inr w1 \<Rightarrow>
                  Inr (W1\<lparr>window :=
                    Object (w1\<lparr>customCancelRequestAnimationFrame :=
                      Some (resolve_cancelRequestAnimationFrame w1)\<rparr>)\<rparr>)))"

text \<open>
  Modelled from the spec: the enum \<^verbatim>\<open>ShapeType\<close> (the file \<^verbatim>\<open>Enums/ShapeType\<close> is not
  available). Each member's value is the key of its name, as the spec's keys
  \<^verbatim>\<open>"edge"\<close>, \<^verbatim>\<open>"square"\<close>, \<^verbatim>\<open>"char"\<close>, \<^verbatim>\<open>"character"\<close>, \<^verbatim>\<open>"image"\<close> and
  \<^verbatim>\<open>"images"\<close> are.
\<close>

datatype ShapeType =
    ShapeType_line | ShapeType_circle | ShapeType_edge | ShapeType_square
  | ShapeType_triangle | ShapeType_star | ShapeType_polygon | ShapeType_char
  | ShapeType_character | ShapeType_image | ShapeType_images

fun ShapeType_value :: "ShapeType \<Rightarrow> string" where
  "ShapeType_value ShapeType_line = ''line''"
| "ShapeType_value ShapeType_circle = ''circle''"
| "ShapeType_value ShapeType_edge = ''edge''"
| "ShapeType_value ShapeType_square = ''square''"
| "ShapeType_value ShapeType_triangle = ''triangle''"
| "ShapeType_value ShapeType_star = ''star''"
| "ShapeType_value ShapeType_polygon = ''polygon''"
| "ShapeType_value ShapeType_char = ''char''"
| "ShapeType_value ShapeType_character = ''character''"
| "ShapeType_value ShapeType_image = ''image''"
| "ShapeType_value ShapeType_images = ''images''"

text \<open>
  The files of the drawer classes are not available: what an instance of each holds is the
  parameter \<open>classes\<close>, and \<^verbatim>\<open>new C()\<close> puts a fresh instance into the store.
\<close>

datatype DrawerClass =
    LineDrawer | CircleDrawer | SquareDrawer | TriangleDrawer
  | StarDrawer | PolygonDrawer | TextDrawer | ImageDrawer

definition new_drawer ::
  "(DrawerClass \<Rightarrow> 'f IShapeDrawer) \<Rightarrow> DrawerClass \<Rightarrow> ('f, 'c) world \<Rightarrow> ref \<times> ('f, 'c) world" where
  "new_drawer classes C W = new_object (classes C) W"

text \<open>A call \<^verbatim>\<open>Plugins.addShapeDrawer(ShapeType.t, new C())\<close>.\<close>

definition addShapeDrawer_new ::
  "(DrawerClass \<Rightarrow> 'f IShapeDrawer) \<Rightarrow> ShapeType \<Rightarrow> DrawerClass \<Rightarrow> ('f, 'c) world \<Rightarrow> ('f, 'c) world" where
  "addShapeDrawer_new classes t C W =
     (let (d, W') = new_drawer classes C W in Plugins_addShapeDrawer (ShapeType_value t) d W')"

text \<open>Lines 70 to 84.\<close>

definition seed_shape_drawers ::
  "(DrawerClass \<Rightarrow> 'f IShapeDrawer) \<Rightarrow> ('f, 'c) world \<Rightarrow> ('f, 'c) world" where
  "seed_shape_drawers classes W0 =
     (let (squareDrawer, W1) = new_drawer classes SquareDrawer W0;
          (textDrawer, W2) = new_drawer classes TextDrawer W1;
          (imageDrawer, W3) = new_drawer classes ImageDrawer W2;
          W4 = addShapeDrawer_new classes ShapeType_line LineDrawer W3;
          W5 = addShapeDrawer_new classes ShapeType_circle CircleDrawer W4;
          W6 = Plugins_addShapeDrawer (ShapeType_value ShapeType_edge) squareDrawer W5;
          W7 = Plugins_addShapeDrawer (ShapeType_value ShapeType_square) squareDrawer W6;
          W8 = addShapeDrawer_new classes ShapeType_triangle TriangleDrawer W7;
          W9 = addShapeDrawer_new classes ShapeType_star StarDrawer W8;
          W10 = addShapeDrawer_new classes ShapeType_polygon PolygonDrawer W9;
          W11 = Plugins_addShapeDrawer (ShapeType_value ShapeType_char) textDrawer W10;
          W12 = Plugins_addShapeDrawer (ShapeType_value ShapeType_character) textDrawer W11;
          W13 = Plugins_addShapeDrawer (ShapeType_value ShapeType_image) imageDrawer W12
      in Plugins_addShapeDrawer (ShapeType_value ShapeType_images) imageDrawer W13)"

text \<open>Lines 47 to 85. A fault of the guarded block would leave the constructor.\<close>

definition Main_constructor ::
  "(DrawerClass \<Rightarrow> 'f IShapeDrawer) \<Rightarrow> ('f, 'c) world \<Rightarrow> fault + (Main \<times> ('f, 'c) world)" where
  "Main_constructor classes W =
     (let this = \<lparr>initialized = False\<rparr> in
      case (if \<not> typeof_undefined (window W) \<and> truthy (window W)
            then install_scheduler W else Inr W) of
        Inl e \<Rightarrow> Inl e
      | Inr W1 \<Rightarrow> Inr (this, seed_shape_drawers classes W1))"

text \<open>
  The claim's words for the probe: the first available primitive of an ordered list of
  candidates.
\<close>

fun first_available :: "'a option list \<Rightarrow> 'a option" where
  "first_available [] = None"
| "first_available (Some x # xs) = Some x"
| "first_available (None # xs) = first_available xs"

section \<open>The load entry points and the legacy surface\<close>

text \<open>
  The class \<^verbatim>\<open>Loader\<close> (\<^verbatim>\<open>Core/Loader\<close>) is not available: the facade takes its
  static methods as a parameter, each a function of the state \<open>'w\<close> it works on. A
  method that returns a promise gives the promise's outcome.
\<close>

record ('o, 'c, 'w) Loader =
  Loader_load :: "string \<Rightarrow> 'o \<Rightarrow> 'w \<Rightarrow> 'c option promise \<times> 'w"
  Loader_loadFromArray :: "string \<Rightarrow> 'o list \<Rightarrow> int option \<Rightarrow> 'w \<Rightarrow> 'c option promise \<times> 'w"
  Loader_loadJSON :: "string \<Rightarrow> string \<Rightarrow> 'w \<Rightarrow> 'c option promise \<times> 'w"
  Loader_dom :: "'w \<Rightarrow> ref \<times> 'w"

text \<open>
  Lines 103 to 144: each method returns what the method of \<^verbatim>\<open>Loader\<close> returns. An
  \<^verbatim>\<open>async\<close> method that returns a promise settles as that promise does.
\<close>

definition Main_loadFromArray ::
  "('o, 'c, 'w) Loader \<Rightarrow> string \<Rightarrow> 'o list \<Rightarrow> int option \<Rightarrow> 'w \<Rightarrow> 'c option promise \<times> 'w" where
  "Main_loadFromArray L tagId params index W = Loader_loadFromArray L tagId params index W"

definition Main_load :: "('o, 'c, 'w) Loader \<Rightarrow> string \<Rightarrow> 'o \<Rightarrow> 'w \<Rightarrow> 'c option promise \<times> 'w" where
  "Main_load L tagId params W = Loader_load L tagId params W"

definition Main_loadJSON ::
  "('o, 'c, 'w) Loader \<Rightarrow> string \<Rightarrow> string \<Rightarrow> 'w \<Rightarrow> 'c option promise \<times> 'w" where
  "Main_loadJSON L tagId pathConfigJson W = Loader_loadJSON L tagId pathConfigJson W"


text \<open>
  \<^verbatim>\<open>p.then(onfulfilled)\<close> with no rejection handler: the handler runs when the promise is
  fulfilled, and is skipped when it is rejected. The result is the list of effects the
  handler performs.
\<close>

definition promise_then :: "'a promise \<Rightarrow> ('a \<Rightarrow> 'e list) \<Rightarrow> 'e list" where
  "promise_then p onfulfilled = (case p of Resolved v \<Rightarrow> onfulfilled v | Rejected e \<Rightarrow> [])"

text \<open>
  Lines 223 to 231, \<^verbatim>\<open>particlesJS.load\<close>. A container is an object, so it is truthy
  exactly when it is not \<^verbatim>\<open>undefined\<close>. The result lists the invocations of
  \<^verbatim>\<open>callback\<close>, each as what the callback yields for its argument.
\<close>

definition particlesJS_load ::
  "('o, 'c, 'w) Loader \<Rightarrow> string \<Rightarrow> string \<Rightarrow> ('c \<Rightarrow> 'e) \<Rightarrow> 'w \<Rightarrow> 'e list \<times> 'w" where
  "particlesJS_load L tagId pathConfigJson callback W =
     (let (p, W') = Main_loadJSON L tagId pathConfigJson W
      in (promise_then p (\<lambda>container.
            case container of Some c \<Rightarrow> [callback c] | None \<Rightarrow> []), W'))"






section \<open>The Loader as the spec describes it\<close>

text \<open>
  The collaborators the spec leaves outside: the GET request (\<open>None\<close> on a network
  failure), the JSON parser (\<open>None\<close> on a parse failure), the construction of a
  container (\<open>None\<close> when it fails) and the policy that picks an element of an array.
\<close>

record ('o, 'c) collaborators =
  http_get :: "string \<Rightarrow> string option"
  json_parse :: "string \<Rightarrow> 'o option"
  build_container :: "string \<Rightarrow> 'o \<Rightarrow> 'c option"
  choose_item :: "'o list \<Rightarrow> 'o"

text \<open>Reading the array behind a reference; a reference outside the store names nothing.\<close>

definition array_at :: "('f, 'c) world \<Rightarrow> ref \<Rightarrow> 'c list" where
  "array_at W r = (if r < length (arrays W) then arrays W ! r else [])"

text \<open>
  Modelled from the spec: \<^verbatim>\<open>Loader.load\<close> (the file \<^verbatim>\<open>Core/Loader\<close> is not available).
  Section 4.3: it constructs one container, "appends the resulting handle to the tracked
  collection; resolves the promise with the handle, or with absent if construction
  fails".
\<close>

definition spec_load ::
  "('o, 'c) collaborators \<Rightarrow> string \<Rightarrow> 'o \<Rightarrow> ('f, 'c) world \<Rightarrow> 'c option promise \<times> ('f, 'c) world" where
  "spec_load env tagId params W =
     (case build_container env tagId params of
        None \<Rightarrow> (Resolved None, W)
      | Some c \<Rightarrow>
          (Resolved (Some c),
           W\<lparr>arrays := (arrays W)[tracked W := array_at W (tracked W) @ [c]]\<rparr>))"

text \<open>
  Modelled from the spec: \<^verbatim>\<open>Loader.loadFromArray\<close> (not available). Section 4.3:
  "same as load, but selects one configuration from an ordered sequence: either the
  element at index if provided and in range, or otherwise a value chosen by an external
  selection policy".
\<close>

definition spec_loadFromArray ::
  "('o, 'c) collaborators \<Rightarrow> string \<Rightarrow> 'o list \<Rightarrow> int option \<Rightarrow> ('f, 'c) world
     \<Rightarrow> 'c option promise \<times> ('f, 'c) world" where
  "spec_loadFromArray env tagId params index W =
     (case index of
        Some i \<Rightarrow>
          if 0 \<le> i \<and> i < int (length params) then spec_load env tagId (params ! nat i) W
          else spec_load env tagId (choose_item env params) W
      | None \<Rightarrow> spec_load env tagId (choose_item env params) W)"

text \<open>
  Modelled from the spec: \<^verbatim>\<open>Loader.loadJSON\<close> (not available). Section 4.3: it
  "issues a GET to path, parses the response body as configuration JSON, and forwards to
  load. Network or parse failure must resolve the promise with absent".
\<close>

definition spec_loadJSON ::
  "('o, 'c) collaborators \<Rightarrow> string \<Rightarrow> string \<Rightarrow> ('f, 'c) world \<Rightarrow> 'c option promise \<times> ('f, 'c) world" where
  "spec_loadJSON env tagId path W =
     (case http_get env path of
        None \<Rightarrow> (Resolved None, W)
      | Some body \<Rightarrow>
          (case json_parse env body of
             None \<Rightarrow> (Resolved None, W)
           | Some params \<Rightarrow> spec_load env tagId params W))"

text \<open>
  Modelled from the spec: \<^verbatim>\<open>Loader.dom\<close> (not available). Section 4.3: it "returns
  the full tracked collection in load order", with "snapshot semantics: callers get a
  point-in-time copy or stable view, not a live one". The copy is a fresh array.
\<close>

definition spec_dom :: "('f, 'c) world \<Rightarrow> ref \<times> ('f, 'c) world" where
  "spec_dom W = (length (arrays W), W\<lparr>arrays := arrays W @ [array_at W (tracked W)]\<rparr>)"

definition spec_Loader :: "('o, 'c) collaborators \<Rightarrow> ('o, 'c, ('f, 'c) world) Loader" where
  "spec_Loader env =
     \<lparr>Loader_load = spec_load env,
      Loader_loadFromArray = spec_loadFromArray env,
      Loader_loadJSON = spec_loadJSON env,
      Loader_dom = spec_dom\<rparr>"




section \<open>A concrete process\<close>

text \<open>
  Function values, containers and option objects are numbers here. The window offers the
  \<^verbatim>\<open>moz\<close> and \<^verbatim>\<open>ms\<close> animation-frame primitives and no cancellation primitive; one
  drawer object is in the store, registered under two keys; no container is tracked.
\<close>

definition example_window :: "nat Window" where
  "example_window =
     \<lparr>requestAnimationFrame = None, webkitRequestAnimationFrame = None,
      mozRequestAnimationFrame = Some 13, oRequestAnimationFrame = None,
      msRequestAnimationFrame = Some 15,
      cancelAnimationFrame = None, webkitCancelRequestAnimationFrame = None,
      mozCancelRequestAnimationFrame = None, oCancelRequestAnimationFrame = None,
      msCancelRequestAnimationFrame = None,
      setTimeout = 1, clearTimeout = 2,
      customRequestAnimationFrame = None, customCancelRequestAnimationFrame = None\<rparr>"

definition example_world :: "(nat, nat) world" where
  "example_world =
     \<lparr>window = Object example_window,
      heap = [\<lparr>draw = 7, init = Some 8, afterEffect = None, destroy = None\<rparr>],
      shapeDrawers = [''edge'' \<mapsto> 0, ''square'' \<mapsto> 0],
      arrays = [[]],
      tracked = 0\<rparr>"

definition example_classes :: "DrawerClass \<Rightarrow> nat IShapeDrawer" where
  "example_classes C =
     (case C of
        TextDrawer \<Rightarrow> \<lparr>draw = 30, init = Some 31, afterEffect = None, destroy = None\<rparr>
      | ImageDrawer \<Rightarrow> \<lparr>draw = 40, init = Some 41, afterEffect = None, destroy = Some 42\<rparr>
      | SquareDrawer \<Rightarrow> \<lparr>draw = 20, init = None, afterEffect = None, destroy = None\<rparr>
      | _ \<Rightarrow> \<lparr>draw = 10, init = None, afterEffect = None, destroy = None\<rparr>)"

text \<open>
  \<^verbatim>\<open>ok.json\<close> is fetched and parsed, \<^verbatim>\<open>page.html\<close> is fetched and does not parse, every
  other path is unreachable; a container can be built on the element \<^verbatim>\<open>tsparticles\<close>
  only.
\<close>

definition example_env :: "(nat, nat) collaborators" where
  "example_env =
     \<lparr>http_get = (\<lambda>path. if path = ''ok.json'' then Some ''{}''
                     else if path = ''page.html'' then Some ''<html>'' else None),
      json_parse = (\<lambda>body. if body = ''{}'' then Some 0 else None),
      build_container = (\<lambda>tagId params. if tagId = ''tsparticles'' then Some 99 else None),
      choose_item = (\<lambda>params. case params of [] \<Rightarrow> 0 | p # _ \<Rightarrow> p)\<rparr>"

text \<open>A Loader whose promises are all rejected.\<close>

definition example_rejecting_Loader :: "(nat, nat, (nat, nat) world) Loader" where
  "example_rejecting_Loader =
     \<lparr>Loader_load = (\<lambda>tagId params W. (Rejected TypeError, W)),
      Loader_loadFromArray = (\<lambda>tagId params index W. (Rejected TypeError, W)),
      Loader_loadJSON = (\<lambda>tagId path W. (Rejected TypeError, W)),
      Loader_dom = (\<lambda>W. (tracked W, W))\<rparr>"

section \<open>Lemmas\<close>

subsection \<open>\<^verbatim>\<open>init\<close>\<close>

lemma Main_init_sets_flag: "initialized (Main_init this)"
  by (simp add: Main_init_def)

lemma Main_init_twice: "Main_init (Main_init this) = Main_init this"
  by (simp add: Main_init_def)

lemma Main_init_funpow: "(Main_init ^^ Suc n) this = Main_init this"
  by (induction n) (simp_all add: Main_init_twice)

subsection \<open>The registry and \<^verbatim>\<open>addShape\<close>\<close>

lemma heap_Plugins_addShapeDrawer: "heap (Plugins_addShapeDrawer key r W) = heap W"
  by (simp add: Plugins_addShapeDrawer_def)

lemma get_Plugins_addShapeDrawer:
  "Plugins_getShapeDrawer (Plugins_addShapeDrawer key r W) key' =
     (if key' = key then Some r else Plugins_getShapeDrawer W key')"
  by (simp add: Plugins_addShapeDrawer_def Plugins_getShapeDrawer_def)

lemma Main_addShape_function:
  "Main_addShape shape (DrawFunction f) i a d W =
     W\<lparr>heap := heap W @ [\<lparr>draw = f, init = i, afterEffect = a, destroy = d\<rparr>],
       shapeDrawers := (shapeDrawers W)(shape \<mapsto> length (heap W))\<rparr>"
  by (simp add: Main_addShape_def addShape_customDrawer_def new_object_def Plugins_addShapeDrawer_def)

lemma Main_addShape_object:
  "Main_addShape shape (DrawerObject r) i a d W = Plugins_addShapeDrawer shape r W"
  by (simp add: Main_addShape_def addShape_customDrawer_def)


lemma Main_addShape_other_key:
  "key \<noteq> shape \<Longrightarrow>
     Plugins_getShapeDrawer (Main_addShape shape drawer i a d W) key = Plugins_getShapeDrawer W key"
  by (cases drawer)
    (simp_all add: Main_addShape_function Main_addShape_object Plugins_addShapeDrawer_def
      Plugins_getShapeDrawer_def)

lemma Main_addShape_bundle_at:
  "r < length (heap W) \<Longrightarrow> bundle_at (Main_addShape shape drawer i a d W) r = bundle_at W r"
  by (cases drawer)
    (simp_all add: Main_addShape_function Main_addShape_object Plugins_addShapeDrawer_def
      bundle_at_def nth_append)

subsection \<open>The constructor\<close>

lemma seed_shape_drawers_eq:
  "seed_shape_drawers classes W =
     W\<lparr>heap := heap W @ [classes SquareDrawer, classes TextDrawer, classes ImageDrawer,
          classes LineDrawer, classes CircleDrawer, classes TriangleDrawer, classes StarDrawer,
          classes PolygonDrawer],
       shapeDrawers := (shapeDrawers W)
         (''line'' \<mapsto> length (heap W) + 3,
          ''circle'' \<mapsto> length (heap W) + 4,
          ''edge'' \<mapsto> length (heap W),
          ''square'' \<mapsto> length (heap W),
          ''triangle'' \<mapsto> length (heap W) + 5,
          ''star'' \<mapsto> length (heap W) + 6,
          ''polygon'' \<mapsto> length (heap W) + 7,
          ''char'' \<mapsto> length (heap W) + 1,
          ''character'' \<mapsto> length (heap W) + 1,
          ''image'' \<mapsto> length (heap W) + 2,
          ''images'' \<mapsto> length (heap W) + 2)\<rparr>"
  by (simp add: seed_shape_drawers_def addShapeDrawer_new_def new_drawer_def new_object_def
      Plugins_addShapeDrawer_def eval_nat_numeral)

lemma Main_constructor_eq:
  "Main_constructor classes W =
     Inr (\<lparr>initialized = False\<rparr>,
          seed_shape_drawers classes
            (case window W of
               Object w \<Rightarrow>
                 W\<lparr>window := Object (w\<lparr>customRequestAnimationFrame :=
                        Some (resolve_requestAnimationFrame w),
                      customCancelRequestAnimationFrame :=
                        Some (resolve_cancelRequestAnimationFrame w)\<rparr>)\<rparr>
             | _ \<Rightarrow> W))"
  by (cases "window W")
    (simp_all add: Main_constructor_def typeof_undefined_def truthy_def install_scheduler_def
      read_global_def resolve_cancelRequestAnimationFrame_def cong: option.case_cong)

lemma bundle_at_seed:
  "bundle_at (seed_shape_drawers classes W) (length (heap W)) = Some (classes SquareDrawer)"
  "bundle_at (seed_shape_drawers classes W) (length (heap W) + 1) = Some (classes TextDrawer)"
  "bundle_at (seed_shape_drawers classes W) (length (heap W) + 2) = Some (classes ImageDrawer)"
  by (simp_all add: seed_shape_drawers_eq bundle_at_def nth_append)

lemma get_seed:
  "Plugins_getShapeDrawer (seed_shape_drawers classes W) ''edge'' = Some (length (heap W))"
  "Plugins_getShapeDrawer (seed_shape_drawers classes W) ''square'' = Some (length (heap W))"
  "Plugins_getShapeDrawer (seed_shape_drawers classes W) ''char'' = Some (length (heap W) + 1)"
  "Plugins_getShapeDrawer (seed_shape_drawers classes W) ''character'' = Some (length (heap W) + 1)"
  "Plugins_getShapeDrawer (seed_shape_drawers classes W) ''image'' = Some (length (heap W) + 2)"
  "Plugins_getShapeDrawer (seed_shape_drawers classes W) ''images'' = Some (length (heap W) + 2)"
  by (simp_all add: seed_shape_drawers_eq Plugins_getShapeDrawer_def)




lemma js_or_chain:
  "js_or (js_or (js_or (js_or a b) c) d) e = first_available [a, b, c, d, e]"
  by (cases a; cases b; cases c; cases d; cases e; simp add: js_or_def)

lemma example_constructor:
  "Main_constructor example_classes example_world =
     Inr (\<lparr>initialized = False\<rparr>,
          seed_shape_drawers example_classes
            (example_world\<lparr>window := Object (example_window
               \<lparr>customRequestAnimationFrame := Some (HostFunction 13),
                customCancelRequestAnimationFrame := Some 2\<rparr>)\<rparr>))"
  by (simp add: Main_constructor_eq example_world_def example_window_def
      resolve_requestAnimationFrame_def resolve_cancelRequestAnimationFrame_def js_or_def)

subsection \<open>The process\<close>






lemma spec_load_resolves: "\<exists>r. fst (spec_load env tagId params W) = Resolved r"
  by (simp add: spec_load_def split: option.splits)







lemma resolve_Main_addShape_function:
  "Plugins_getShapeDrawer (Main_addShape k (DrawFunction f) i a d W) k = Some (length (heap W))"
  "resolve_bundle (Main_addShape k (DrawFunction f) i a d W) k =
     Some \<lparr>draw = f, init = i, afterEffect = a, destroy = d\<rparr>"
  by (simp_all add: Main_addShape_function resolve_bundle_def Plugins_getShapeDrawer_def
      bundle_at_def)

lemma resolve_Main_addShape_object:
  "Plugins_getShapeDrawer (Main_addShape k (DrawerObject r) i a d W) k = Some r"
  "resolve_bundle (Main_addShape k (DrawerObject r) i a d W) k = bundle_at W r"
  by (simp_all add: Main_addShape_object resolve_bundle_def get_Plugins_addShapeDrawer
      bundle_at_def heap_Plugins_addShapeDrawer)

section \<open>The claims\<close>

text \<open>
  C1: \<^verbatim>\<open>addShape(name, drawFn, init, afterEffect, destroy)\<close> and
  \<^verbatim>\<open>addShape(name, bundle)\<close>, where \<^verbatim>\<open>bundle\<close> is an object that holds \<^verbatim>\<open>drawFn\<close> and
  the same hooks, register equivalent bundles. In every state the function form hands the
  registry a new object, and makes the name resolve to it, whose \<^verbatim>\<open>draw\<close> is
  \<^verbatim>\<open>drawFn\<close> and whose hooks are the ones supplied, a hook that was not supplied being
  absent. Where \<open>r\<close> names an object with these four fields, the object form hands the
  registry that object and makes the name resolve to the same bundle.
\<close>

theorem addShape_forms_equivalent:
  "fst (addShape_customDrawer (DrawFunction drawFn) i a d W) = length (heap W)
   \<and> bundle_at (snd (addShape_customDrawer (DrawFunction drawFn) i a d W))
        (fst (addShape_customDrawer (DrawFunction drawFn) i a d W)) =
       Some \<lparr>draw = drawFn, init = i, afterEffect = a, destroy = d\<rparr>
   \<and> resolve_bundle (Main_addShape name (DrawFunction drawFn) i a d W) name =
       Some \<lparr>draw = drawFn, init = i, afterEffect = a, destroy = d\<rparr>
   \<and> (bundle_at W r = Some \<lparr>draw = drawFn, init = i, afterEffect = a, destroy = d\<rparr> \<longrightarrow>
         bundle_at (snd (addShape_customDrawer (DrawerObject r) None None None W))
           (fst (addShape_customDrawer (DrawerObject r) None None None W)) =
          Some \<lparr>draw = drawFn, init = i, afterEffect = a, destroy = d\<rparr>
         \<and> resolve_bundle (Main_addShape name (DrawerObject r) None None None W) name =
          Some \<lparr>draw = drawFn, init = i, afterEffect = a, destroy = d\<rparr>
         \<and> resolve_bundle (Main_addShape name (DrawerObject r) None None None W) name =
          resolve_bundle (Main_addShape name (DrawFunction drawFn) i a d W) name)"
proof -
  let ?b = "\<lparr>draw = drawFn, init = i, afterEffect = a, destroy = d\<rparr>"
  have fresh: "fst (addShape_customDrawer (DrawFunction drawFn) i a d W) = length (heap W)"
    by (simp add: addShape_customDrawer_def new_object_def)
  have handed_function:
    "bundle_at (snd (addShape_customDrawer (DrawFunction drawFn) i a d W))
       (fst (addShape_customDrawer (DrawFunction drawFn) i a d W)) = Some ?b"
    by (simp add: addShape_customDrawer_def new_object_def bundle_at_def)
  have stored_function:
    "resolve_bundle (Main_addShape name (DrawFunction drawFn) i a d W) name = Some ?b"
    by (rule resolve_Main_addShape_function)
  have handed_object:
    "bundle_at (snd (addShape_customDrawer (DrawerObject r) None None None W))
       (fst (addShape_customDrawer (DrawerObject r) None None None W)) = Some ?b"
    if "bundle_at W r = Some ?b"
    using that by (simp add: addShape_customDrawer_def)
  have stored_object:
    "resolve_bundle (Main_addShape name (DrawerObject r) None None None W) name = Some ?b"
    if "bundle_at W r = Some ?b"
    using that by (simp add: resolve_Main_addShape_object)
  from fresh handed_function stored_function handed_object stored_object show ?thesis
    by simp
qed

theorem addShape_forms_equivalent_witness:
  "bundle_at example_world 0 = Some \<lparr>draw = 7, init = Some 8, afterEffect = None, destroy = None\<rparr>
   \<and> fst (addShape_customDrawer (DrawFunction 7) (Some 8) None None example_world) = 1
   \<and> resolve_bundle (Main_addShape ''spiral'' (DrawFunction 7) (Some 8) None None example_world) ''spiral'' =
        Some \<lparr>draw = 7, init = Some 8, afterEffect = None, destroy = None\<rparr>
   \<and> resolve_bundle (Main_addShape ''spiral'' (DrawerObject 0) None None None example_world) ''spiral'' =
        Some \<lparr>draw = 7, init = Some 8, afterEffect = None, destroy = None\<rparr>"
proof -
  have h: "bundle_at example_world 0 = Some \<lparr>draw = 7, init = Some 8, afterEffect = None, destroy = None\<rparr>"
    and l: "length (heap example_world) = 1"
    by (simp_all add: bundle_at_def example_world_def)
  from addShape_forms_equivalent [of 7 "Some 8" None None example_world "''spiral''" 0] h l
  show ?thesis by simp
qed

text \<open>
  C2: after the constructor, \<^verbatim>\<open>"edge"\<close> and \<^verbatim>\<open>"square"\<close> resolve to one reference, which
  names the instance of \<^verbatim>\<open>SquareDrawer\<close>; \<^verbatim>\<open>"char"\<close> and \<^verbatim>\<open>"character"\<close> resolve to
  the one instance of \<^verbatim>\<open>TextDrawer\<close>; \<^verbatim>\<open>"image"\<close> and \<^verbatim>\<open>"images"\<close> to the one of
  \<^verbatim>\<open>ImageDrawer\<close>. In general, after one bundle has been registered under two keys, each
  of the keys resolves to that bundle.
\<close>

theorem builtin_aliases_share_instance:
  "(\<exists>this W' s t i.
      Main_constructor classes W = Inr (this, W')
      \<and> Plugins_getShapeDrawer W' ''edge'' = Some s
      \<and> Plugins_getShapeDrawer W' ''square'' = Some s
      \<and> bundle_at W' s = Some (classes SquareDrawer)
      \<and> Plugins_getShapeDrawer W' ''char'' = Some t
      \<and> Plugins_getShapeDrawer W' ''character'' = Some t
      \<and> bundle_at W' t = Some (classes TextDrawer)
      \<and> Plugins_getShapeDrawer W' ''image'' = Some i
      \<and> Plugins_getShapeDrawer W' ''images'' = Some i
      \<and> bundle_at W' i = Some (classes ImageDrawer))
   \<and> Plugins_getShapeDrawer (Plugins_addShapeDrawer k2 b (Plugins_addShapeDrawer k1 b V)) k1 = Some b
   \<and> Plugins_getShapeDrawer (Plugins_addShapeDrawer k2 b (Plugins_addShapeDrawer k1 b V)) k2 = Some b"
proof -
  obtain W1 where c: "Main_constructor classes W = Inr (\<lparr>initialized = False\<rparr>, seed_shape_drawers classes W1)"
    using Main_constructor_eq by blast
  show ?thesis
    unfolding c using get_seed [of classes W1] bundle_at_seed [of classes W1]
    by (simp add: get_Plugins_addShapeDrawer)
qed

theorem builtin_aliases_share_instance_witness:
  "\<exists>W'. Main_constructor example_classes example_world = Inr (\<lparr>initialized = False\<rparr>, W')
      \<and> Plugins_getShapeDrawer W' ''edge'' = Some 1
      \<and> Plugins_getShapeDrawer W' ''square'' = Some 1
      \<and> bundle_at W' 1 = Some \<lparr>draw = 20, init = None, afterEffect = None, destroy = None\<rparr>
      \<and> Plugins_getShapeDrawer W' ''char'' = Some 2
      \<and> Plugins_getShapeDrawer W' ''character'' = Some 2
      \<and> Plugins_getShapeDrawer W' ''image'' = Some 3
      \<and> Plugins_getShapeDrawer W' ''images'' = Some 3"
proof -
  from builtin_aliases_share_instance [of example_classes example_world]
  obtain this W' s t i where c: "Main_constructor example_classes example_world = Inr (this, W')"
    and "Plugins_getShapeDrawer W' ''edge'' = Some s"
    and "Plugins_getShapeDrawer W' ''square'' = Some s"
    and "bundle_at W' s = Some (example_classes SquareDrawer)"
    and "Plugins_getShapeDrawer W' ''char'' = Some t"
    and "Plugins_getShapeDrawer W' ''character'' = Some t"
    and "Plugins_getShapeDrawer W' ''image'' = Some i"
    and "Plugins_getShapeDrawer W' ''images'' = Some i"
    by blast
  moreover from c have "this = \<lparr>initialized = False\<rparr>"
    and w: "W' = seed_shape_drawers example_classes
      (example_world\<lparr>window := Object (example_window
         \<lparr>customRequestAnimationFrame := Some (HostFunction 13),
          customCancelRequestAnimationFrame := Some 2\<rparr>)\<rparr>)"
    by (simp_all add: example_constructor)
  moreover from w have "Plugins_getShapeDrawer W' ''edge'' = Some 1"
    and "Plugins_getShapeDrawer W' ''char'' = Some 2"
    and "Plugins_getShapeDrawer W' ''image'' = Some 3"
    by (simp_all add: get_seed example_world_def)
  ultimately show ?thesis
    by (auto simp: example_classes_def)
qed

text \<open>
  C3: registering a bundle under a key \<open>k\<close>, by the register operation or by
  \<^verbatim>\<open>addShape\<close>, makes \<open>k\<close> resolve to the new bundle (the given reference, the new
  object of the function form, the given object of the object form) and leaves what
  every other key resolves to as it was; no object that was in the store changes. When
  \<open>k\<close> and another key resolve to one old bundle, the other key resolves to the old
  bundle afterwards.
\<close>

theorem register_changes_one_key:
  "Plugins_getShapeDrawer (Plugins_addShapeDrawer k b W) k = Some b
   \<and> resolve_bundle (Plugins_addShapeDrawer k b W) k = bundle_at W b
   \<and> (\<forall>key. key \<noteq> k \<longrightarrow>
         Plugins_getShapeDrawer (Plugins_addShapeDrawer k b W) key = Plugins_getShapeDrawer W key
         \<and> resolve_bundle (Plugins_addShapeDrawer k b W) key = resolve_bundle W key)
   \<and> heap (Plugins_addShapeDrawer k b W) = heap W
   \<and> Plugins_getShapeDrawer (Main_addShape k (DrawFunction f) i a d W) k = Some (length (heap W))
   \<and> resolve_bundle (Main_addShape k (DrawFunction f) i a d W) k =
       Some \<lparr>draw = f, init = i, afterEffect = a, destroy = d\<rparr>
   \<and> Plugins_getShapeDrawer (Main_addShape k (DrawerObject r) i a d W) k = Some r
   \<and> resolve_bundle (Main_addShape k (DrawerObject r) i a d W) k = bundle_at W r
   \<and> (\<forall>key. key \<noteq> k \<longrightarrow>
         Plugins_getShapeDrawer (Main_addShape k drawer i a d W) key = Plugins_getShapeDrawer W key)
   \<and> (\<forall>r'. r' < length (heap W) \<longrightarrow> bundle_at (Main_addShape k drawer i a d W) r' = bundle_at W r')
   \<and> (\<forall>k2 old. k2 \<noteq> k \<and> Plugins_getShapeDrawer W k = Some old
           \<and> Plugins_getShapeDrawer W k2 = Some old \<and> old < length (heap W) \<longrightarrow>
         Plugins_getShapeDrawer (Main_addShape k drawer i a d W) k2 = Some old
         \<and> bundle_at (Main_addShape k drawer i a d W) old = bundle_at W old
         \<and> resolve_bundle (Main_addShape k drawer i a d W) k2 = resolve_bundle W k2)"
proof -
  have same_store: "bundle_at (Plugins_addShapeDrawer k b W) r' = bundle_at W r'" for r'
    by (simp add: bundle_at_def heap_Plugins_addShapeDrawer)
  have register_other:
    "resolve_bundle (Plugins_addShapeDrawer k b W) key = resolve_bundle W key" if "key \<noteq> k" for key
    using that
    by (simp add: resolve_bundle_def get_Plugins_addShapeDrawer same_store split: option.splits)
  have register_this: "resolve_bundle (Plugins_addShapeDrawer k b W) k = bundle_at W b"
    by (simp add: resolve_bundle_def get_Plugins_addShapeDrawer same_store)
  have other_alias:
    "resolve_bundle (Main_addShape k drawer i a d W) k2 = resolve_bundle W k2"
    if "k2 \<noteq> k" "Plugins_getShapeDrawer W k2 = Some old" "old < length (heap W)" for k2 old
    using that by (simp add: resolve_bundle_def Main_addShape_other_key Main_addShape_bundle_at)
  from register_other register_this other_alias show ?thesis
    by (simp add: get_Plugins_addShapeDrawer heap_Plugins_addShapeDrawer
        Main_addShape_other_key Main_addShape_bundle_at resolve_Main_addShape_function
        resolve_Main_addShape_object)
qed

theorem register_changes_one_key_witness:
  "Plugins_getShapeDrawer example_world ''edge'' = Some 0
   \<and> Plugins_getShapeDrawer example_world ''square'' = Some 0
   \<and> Plugins_getShapeDrawer (Main_addShape ''edge'' (DrawFunction 9) None None None example_world) ''edge'' = Some 1
   \<and> resolve_bundle (Main_addShape ''edge'' (DrawFunction 9) None None None example_world) ''edge'' =
        Some \<lparr>draw = 9, init = None, afterEffect = None, destroy = None\<rparr>
   \<and> Plugins_getShapeDrawer (Main_addShape ''edge'' (DrawFunction 9) None None None example_world) ''square'' = Some 0
   \<and> resolve_bundle (Main_addShape ''edge'' (DrawFunction 9) None None None example_world) ''square'' =
        Some \<lparr>draw = 7, init = Some 8, afterEffect = None, destroy = None\<rparr>
   \<and> bundle_at (Main_addShape ''edge'' (DrawFunction 9) None None None example_world) 0 =
        Some \<lparr>draw = 7, init = Some 8, afterEffect = None, destroy = None\<rparr>"
proof -
  have e: "Plugins_getShapeDrawer example_world ''edge'' = Some 0"
    and s: "Plugins_getShapeDrawer example_world ''square'' = Some 0"
    and l: "length (heap example_world) = 1"
    and b: "bundle_at example_world 0 = Some \<lparr>draw = 7, init = Some 8, afterEffect = None, destroy = None\<rparr>"
    and q: "resolve_bundle example_world ''square'' =
        Some \<lparr>draw = 7, init = Some 8, afterEffect = None, destroy = None\<rparr>"
    by (simp_all add: Plugins_getShapeDrawer_def example_world_def bundle_at_def resolve_bundle_def)
  from register_changes_one_key
    [of "''edge''" 1 example_world 9 None None None 0 "DrawFunction 9"]
    e s l b q show ?thesis by simp
qed

text \<open>
  C4: in a windowed context the constructor binds \<^verbatim>\<open>customRequestAnimationFrame\<close> to the
  first available of \<^verbatim>\<open>requestAnimationFrame\<close> and its \<^verbatim>\<open>webkit\<close>, \<^verbatim>\<open>moz\<close>, \<^verbatim>\<open>o\<close> and
  \<^verbatim>\<open>ms\<close> variants, in this order, and to the closure that calls \<^verbatim>\<open>setTimeout\<close> with the
  callback and the delay 1000 / 60 when there is none; it binds
  \<^verbatim>\<open>customCancelRequestAnimationFrame\<close> to the first available cancellation primitive in
  the same order, and to \<^verbatim>\<open>clearTimeout\<close> when there is none.
\<close>

theorem scheduler_precedence:
  assumes "window W = Object w"
  shows "\<exists>this W' w'.
      Main_constructor classes W = Inr (this, W')
      \<and> window W' = Object w'
      \<and> customRequestAnimationFrame w' =
          Some (case first_available [requestAnimationFrame w, webkitRequestAnimationFrame w,
                  mozRequestAnimationFrame w, oRequestAnimationFrame w, msRequestAnimationFrame w] of
                  Some f \<Rightarrow> HostFunction f | None \<Rightarrow> TimeoutClosure)
      \<and> customCancelRequestAnimationFrame w' =
          Some (case first_available [cancelAnimationFrame w, webkitCancelRequestAnimationFrame w,
                  mozCancelRequestAnimationFrame w, oCancelRequestAnimationFrame w,
                  msCancelRequestAnimationFrame w] of
                  Some f \<Rightarrow> f | None \<Rightarrow> clearTimeout w)
      \<and> call_schedule_fn TimeoutClosure w' callback = HostCall (setTimeout w) callback (Some (1000 / 60))
      \<and> (\<forall>f. call_schedule_fn (HostFunction f) w' callback = HostCall f callback None)"
  using assms
  by (simp add: Main_constructor_eq seed_shape_drawers_eq resolve_requestAnimationFrame_def
      resolve_cancelRequestAnimationFrame_def js_or_chain call_schedule_fn_def)

theorem scheduler_precedence_witness:
  "window example_world = Object example_window
   \<and> (\<exists>this W' w'.
        Main_constructor example_classes example_world = Inr (this, W')
        \<and> window W' = Object w'
        \<and> customRequestAnimationFrame w' = Some (HostFunction 13)
        \<and> customCancelRequestAnimationFrame w' = Some 2
        \<and> call_schedule_fn TimeoutClosure w' (5 :: nat) = HostCall 1 5 (Some (50 / 3)))"
proof -
  have h: "window example_world = Object example_window"
    by (simp add: example_world_def)
  from scheduler_precedence [OF h, of example_classes "5 :: nat"]
  obtain this W' w' where "Main_constructor example_classes example_world = Inr (this, W')"
    and "window W' = Object w'"
    and "customRequestAnimationFrame w' = Some (HostFunction 13)"
    and "customCancelRequestAnimationFrame w' = Some 2"
    and "call_schedule_fn TimeoutClosure w' (5 :: nat) = HostCall 1 5 (Some (50 / 3))"
    by (auto simp: example_window_def)
  with h show ?thesis by blast
qed



text \<open>
  C6: \<^verbatim>\<open>init()\<close> is idempotent. From every facade state, \<open>n \<ge> 1\<close> calls leave the
  state that one call leaves; the flag is set after the first call and a further call
  changes nothing. The method is a total function with no faulting branch.
\<close>

theorem init_idempotent:
  "(0 < n \<longrightarrow> (Main_init ^^ n) this = Main_init this)
   \<and> initialized (Main_init this)
   \<and> Main_init (Main_init this) = Main_init this
   \<and> (initialized this \<longrightarrow> Main_init this = this)"
proof -
  have "(Main_init ^^ n) this = Main_init this" if "0 < n"
  proof -
    from that obtain k where "n = Suc k" by (cases n) auto
    then show ?thesis by (simp only: Main_init_funpow)
  qed
  moreover have "Main_init this = this" if "initialized this"
    using that by (simp add: Main_init_def)
  ultimately show ?thesis
    by (simp add: Main_init_sets_flag Main_init_twice)
qed

theorem init_idempotent_witness:
  "(Main_init ^^ 3) \<lparr>initialized = False\<rparr> = Main_init \<lparr>initialized = False\<rparr>
   \<and> Main_init \<lparr>initialized = False\<rparr> = \<lparr>initialized = True\<rparr>
   \<and> Main_init \<lparr>initialized = True\<rparr> = \<lparr>initialized = True\<rparr>"
  using init_idempotent [of 3 "\<lparr>initialized = False\<rparr>"]
    init_idempotent [of 1 "\<lparr>initialized = True\<rparr>"]
  by (simp add: Main_init_def)

text \<open>
  C7: \<^verbatim>\<open>particlesJS.load(tagId, path, callback)\<close> forwards to \<^verbatim>\<open>loadJSON\<close>. The callback
  is invoked once, with the container, when the promise resolves with a container; it is
  not invoked when the promise resolves with \<^verbatim>\<open>undefined\<close>, nor when it is rejected.
\<close>

theorem legacy_load_callback:
  "(\<forall>c. fst (Main_loadJSON L tagId path W) = Resolved (Some c) \<longrightarrow>
        fst (particlesJS_load L tagId path callback W) = [callback c])
   \<and> (fst (Main_loadJSON L tagId path W) = Resolved None \<longrightarrow>
        fst (particlesJS_load L tagId path callback W) = [])
   \<and> (\<forall>e. fst (Main_loadJSON L tagId path W) = Rejected e \<longrightarrow>
        fst (particlesJS_load L tagId path callback W) = [])
   \<and> snd (particlesJS_load L tagId path callback W) = snd (Loader_loadJSON L tagId path W)"
  by (cases "Loader_loadJSON L tagId path W")
    (auto simp: particlesJS_load_def promise_then_def Main_loadJSON_def)

theorem legacy_load_callback_witness:
  "fst (Main_loadJSON (spec_Loader example_env) ''tsparticles'' ''ok.json'' example_world) =
      Resolved (Some 99)
   \<and> fst (particlesJS_load (spec_Loader example_env) ''tsparticles'' ''ok.json'' Suc example_world) =
      [100]
   \<and> fst (Main_loadJSON (spec_Loader example_env) ''tsparticles'' ''gone.json'' example_world) =
      Resolved None
   \<and> fst (particlesJS_load (spec_Loader example_env) ''tsparticles'' ''gone.json'' Suc example_world) = []
   \<and> fst (Main_loadJSON example_rejecting_Loader ''tsparticles'' ''ok.json'' example_world) =
      Rejected TypeError
   \<and> fst (particlesJS_load example_rejecting_Loader ''tsparticles'' ''ok.json'' Suc example_world) = []"
proof -
  have a: "fst (Main_loadJSON (spec_Loader example_env) ''tsparticles'' ''ok.json'' example_world) =
      Resolved (Some 99)"
    and b: "fst (Main_loadJSON (spec_Loader example_env) ''tsparticles'' ''gone.json'' example_world) =
      Resolved None"
    and c: "fst (Main_loadJSON example_rejecting_Loader ''tsparticles'' ''ok.json'' example_world) =
      Rejected TypeError"
    by (simp_all add: Main_loadJSON_def spec_Loader_def spec_loadJSON_def spec_load_def
        example_env_def example_rejecting_Loader_def)
  from legacy_load_callback [of "spec_Loader example_env" "''tsparticles''" "''ok.json''" example_world Suc]
    legacy_load_callback [of "spec_Loader example_env" "''tsparticles''" "''gone.json''" example_world Suc]
    legacy_load_callback [of example_rejecting_Loader "''tsparticles''" "''ok.json''" example_world Suc]
    a b c
  show ?thesis by simp
qed



text \<open>
  C9: with the Loader of the spec, \<^verbatim>\<open>loadJSON(tagId, path)\<close> always resolves its promise
  and never rejects it; on a network failure and on a parse failure it resolves with the
  absent result and leaves the state as it was. \<^verbatim>\<open>load\<close> and \<^verbatim>\<open>loadFromArray\<close> never
  reject either.
\<close>

theorem loadJSON_failure_resolves_absent:
  "(\<exists>r. fst (Main_loadJSON (spec_Loader env) tagId path W) = Resolved r)
   \<and> (http_get env path = None \<longrightarrow>
        Main_loadJSON (spec_Loader env) tagId path W = (Resolved None, W))
   \<and> (\<forall>body. http_get env path = Some body \<and> json_parse env body = None \<longrightarrow>
        Main_loadJSON (spec_Loader env) tagId path W = (Resolved None, W))
   \<and> (\<exists>r. fst (Main_load (spec_Loader env) tagId params W) = Resolved r)
   \<and> (\<exists>r. fst (Main_loadFromArray (spec_Loader env) tagId ps index W) = Resolved r)"
  by (simp add: Main_loadJSON_def Main_load_def Main_loadFromArray_def spec_Loader_def
      spec_loadJSON_def spec_loadFromArray_def spec_load_resolves split: option.splits)

theorem loadJSON_failure_resolves_absent_witness:
  "http_get example_env ''gone.json'' = None
   \<and> Main_loadJSON (spec_Loader example_env) ''tsparticles'' ''gone.json'' example_world =
       (Resolved None, example_world)
   \<and> http_get example_env ''page.html'' = Some ''<html>''
   \<and> json_parse example_env ''<html>'' = None
   \<and> Main_loadJSON (spec_Loader example_env) ''tsparticles'' ''page.html'' example_world =
       (Resolved None, example_world)"
proof -
  have a: "http_get example_env ''gone.json'' = None"
    and b: "http_get example_env ''page.html'' = Some ''<html>''"
    and c: "json_parse example_env ''<html>'' = None"
    by (simp_all add: example_env_def)
  from loadJSON_failure_resolves_absent [of example_env "''tsparticles''" "''gone.json''" example_world]
    loadJSON_failure_resolves_absent [of example_env "''tsparticles''" "''page.html''" example_world]
    a b c
  show ?thesis by simp
qed

text \<open>
  C10: when \<^verbatim>\<open>drawer\<close> is an object, \<^verbatim>\<open>addShape\<close> ignores \<^verbatim>\<open>init\<close>, \<^verbatim>\<open>afterEffect\<close>
  and \<^verbatim>\<open>destroy\<close>: the drawer handed to the registry is the object itself, the name
  resolves to its reference, the store of objects is unchanged, and the call does what the
  call without the three arguments does.
\<close>

theorem addShape_object_ignores_hooks:
  "addShape_customDrawer (DrawerObject r) i a d W = (r, W)
   \<and> Plugins_getShapeDrawer (Main_addShape name (DrawerObject r) i a d W) name = Some r
   \<and> heap (Main_addShape name (DrawerObject r) i a d W) = heap W
   \<and> Main_addShape name (DrawerObject r) i a d W =
       Main_addShape name (DrawerObject r) None None None W"
  by (simp add: Main_addShape_object get_Plugins_addShapeDrawer heap_Plugins_addShapeDrawer
      addShape_customDrawer_def)

end
